theory Spec2Isabelle
  imports Main "HOL-Library.Log_Nat"
begin

section \<open>Python values, exceptions and the object store\<close>

text \<open>
  The program is \<^verbatim>\<open>sistema_inventario.py\<close>: the classes \<^verbatim>\<open>Producto\<close> and
  \<^verbatim>\<open>Inventario\<close>. Python is dynamically typed, so an argument is a value of
  \<open>pyval\<close>; the type tests of the source (\<^verbatim>\<open>isinstance\<close>) are functions on it.
  The exceptions the code raises are values of \<open>error\<close>: the source raises
  \<^verbatim>\<open>TypeError\<close>, \<^verbatim>\<open>ValueError\<close> and \<^verbatim>\<open>KeyError\<close>; the conversion
  \<^verbatim>\<open>float(precio)\<close> and the product \<^verbatim>\<open>float * int\<close> raise \<^verbatim>\<open>OverflowError\<close> on an
  integer too large for a double; reading an attribute of an object that has none raises
  \<^verbatim>\<open>AttributeError\<close>. In the words of the specification, \<^verbatim>\<open>InvalidType\<close> is
  \<open>TypeError\<close>, \<^verbatim>\<open>InvalidValue\<close> and \<^verbatim>\<open>DuplicateKey\<close> are both \<open>ValueError\<close>
  (the source raises the same class for both), and \<^verbatim>\<open>NotFound\<close> is \<open>KeyError\<close>.
\<close>

datatype error = TypeError | ValueError | KeyError | OverflowError | AttributeError

type_synonym ref = nat

text \<open>
  A Python \<^verbatim>\<open>float\<close> is an IEEE 754 binary64 number. \<open>Finite s m e\<close> is the number
  \<open>(-1)\<^sup>s * m * 2\<^sup>e\<close> with \<open>0 \<le> m < 2\<^sup>5\<^sup>3\<close> and \<open>-1074 \<le> e \<le> 971\<close>, normalised (either
  \<open>2\<^sup>5\<^sup>2 \<le> m\<close> or \<open>e = -1074\<close>) so that every double has one representation; \<open>s\<close> is the
  sign bit (\<open>True\<close> for negative), which also tells \<open>-0.0\<close> from \<open>0.0\<close>.
\<close>

datatype pyfloat = Finite bool int int | Infinity bool | NaN

text \<open>
  A string is a list of characters of a type \<open>'c\<close>. Objects live in the store and a value
  refers to them by address: \<open>PProducto r\<close> is a reference to the \<^verbatim>\<open>Producto\<close> object at
  address \<open>r\<close>, \<open>PList r\<close> a reference to a list object.
\<close>

datatype 'c pyval =
    PNone
  | PBool bool
  | PInt int
  | PFloat pyfloat
  | PStr "'c list"
  | PList ref
  | PProducto ref

text \<open>\<^verbatim>\<open>isinstance\<close>: \<^verbatim>\<open>bool\<close> is a subclass of \<^verbatim>\<open>int\<close> in Python.\<close>

fun isinstance_str :: "'c pyval \<Rightarrow> bool" where
  "isinstance_str (PStr s) = True"
| "isinstance_str _ = False"

fun isinstance_bool :: "'c pyval \<Rightarrow> bool" where
  "isinstance_bool (PBool b) = True"
| "isinstance_bool _ = False"

fun isinstance_int :: "'c pyval \<Rightarrow> bool" where
  "isinstance_int (PInt n) = True"
| "isinstance_int (PBool b) = True"
| "isinstance_int _ = False"

fun isinstance_float :: "'c pyval \<Rightarrow> bool" where
  "isinstance_float (PFloat f) = True"
| "isinstance_float _ = False"

fun isinstance_Producto :: "'c pyval \<Rightarrow> bool" where
  "isinstance_Producto (PProducto r) = True"
| "isinstance_Producto _ = False"

subsection \<open>Floating-point arithmetic\<close>

text \<open>
  \<open>round_dyadic s M E\<close> rounds the number \<open>(-1)\<^sup>s * M * 2\<^sup>E\<close> (\<open>M \<ge> 0\<close>) to the nearest
  double, ties to even, and to an infinity when the rounded value is beyond the largest
  double. Sums and products of doubles and integers are such dyadic numbers, so every
  operation the program uses is the exact result rounded once.
\<close>

definition round_dyadic :: "bool \<Rightarrow> int \<Rightarrow> int \<Rightarrow> pyfloat" where
  "round_dyadic s M E =
    (if M = 0 then Finite s 0 (- 1074)
     else
       let e = max (E + bitlen M - 53) (- 1074);
           k = nat (e - E);
           q = M div 2 ^ k;
           r = M mod 2 ^ k;
           m = (if e \<le> E then M * 2 ^ nat (E - e)
                else if 2 ^ k < 2 * r \<or> (2 * r = 2 ^ k \<and> odd q) then q + 1 else q);
           e' = (if m = 2 ^ 53 then e + 1 else e);
           m' = (if m = 2 ^ 53 then 2 ^ 52 else m)
       in if 971 < e' then Infinity s else Finite s m' e')"

text \<open>
  \<^verbatim>\<open>float(n)\<close> for an integer \<open>n\<close>, and the conversion of the integer operand of
  \<^verbatim>\<open>float * int\<close>: correctly rounded, \<^verbatim>\<open>OverflowError\<close> when the result is not finite.
\<close>

definition float_of_int :: "int \<Rightarrow> error + pyfloat" where
  "float_of_int n =
    (case round_dyadic (n < 0) \<bar>n\<bar> 0 of
       Finite s m e \<Rightarrow> Inr (Finite s m e)
     | _ \<Rightarrow> Inl OverflowError)"

fun fmul :: "pyfloat \<Rightarrow> pyfloat \<Rightarrow> pyfloat" where
  "fmul NaN y = NaN"
| "fmul x NaN = NaN"
| "fmul (Infinity s) (Infinity t) = Infinity (s \<noteq> t)"
| "fmul (Infinity s) (Finite t n f) = (if n = 0 then NaN else Infinity (s \<noteq> t))"
| "fmul (Finite s m e) (Infinity t) = (if m = 0 then NaN else Infinity (s \<noteq> t))"
| "fmul (Finite s m e) (Finite t n f) = round_dyadic (s \<noteq> t) (m * n) (e + f)"

fun fadd :: "pyfloat \<Rightarrow> pyfloat \<Rightarrow> pyfloat" where
  "fadd NaN y = NaN"
| "fadd x NaN = NaN"
| "fadd (Infinity s) (Infinity t) = (if s = t then Infinity s else NaN)"
| "fadd (Infinity s) (Finite t n f) = Infinity s"
| "fadd (Finite s m e) (Infinity t) = Infinity t"
| "fadd (Finite s m e) (Finite t n f) =
    (let E = min e f;
         a = (if s then - m else m) * 2 ^ nat (e - E) + (if t then - n else n) * 2 ^ nat (f - E)
     in if a = 0 then Finite (s \<and> t) 0 (- 1074) else round_dyadic (a < 0) \<bar>a\<bar> E)"

text \<open>The comparisons of a double with the integer literal \<^verbatim>\<open>0\<close>; all are false of a NaN.\<close>

fun float_lt_zero :: "pyfloat \<Rightarrow> bool" where
  "float_lt_zero (Finite s m e) = (s \<and> m \<noteq> 0)"
| "float_lt_zero (Infinity s) = s"
| "float_lt_zero NaN = False"

fun float_le_zero :: "pyfloat \<Rightarrow> bool" where
  "float_le_zero (Finite s m e) = (s \<or> m = 0)"
| "float_le_zero (Infinity s) = s"
| "float_le_zero NaN = False"

fun float_ge_zero :: "pyfloat \<Rightarrow> bool" where
  "float_ge_zero (Finite s m e) = (\<not> s \<or> m = 0)"
| "float_ge_zero (Infinity s) = (\<not> s)"
| "float_ge_zero NaN = False"

text \<open>
  \<^verbatim>\<open>x < 0\<close>, \<^verbatim>\<open>x <= 0\<close> and \<^verbatim>\<open>x >= 0\<close> on a value. The source compares only after
  its \<^verbatim>\<open>isinstance\<close> test has let a number through; a boolean compares as 0 or 1. On
  the other kinds of value (never compared by the source) the functions are false.
\<close>

fun py_lt_zero :: "'c pyval \<Rightarrow> bool" where
  "py_lt_zero (PInt n) = (n < 0)"
| "py_lt_zero (PFloat f) = float_lt_zero f"
| "py_lt_zero _ = False"

fun py_le_zero :: "'c pyval \<Rightarrow> bool" where
  "py_le_zero (PInt n) = (n \<le> 0)"
| "py_le_zero (PFloat f) = float_le_zero f"
| "py_le_zero (PBool b) = (\<not> b)"
| "py_le_zero _ = False"

fun py_ge_zero :: "'c pyval \<Rightarrow> bool" where
  "py_ge_zero (PInt n) = (0 \<le> n)"
| "py_ge_zero (PFloat f) = float_ge_zero f"
| "py_ge_zero (PBool b) = True"
| "py_ge_zero _ = False"

text \<open>
  \<^verbatim>\<open>float(x)\<close> and \<^verbatim>\<open>int(x)\<close> where the source calls them: on a number that passed
  the \<^verbatim>\<open>isinstance\<close> tests. A double converts to itself, an integer is rounded or
  overflows. The other kinds never reach the calls; the model gives them \<open>TypeError\<close>.
\<close>

fun py_float :: "'c pyval \<Rightarrow> error + pyfloat" where
  "py_float (PFloat f) = Inr f"
| "py_float (PInt n) = float_of_int n"
| "py_float (PBool b) = float_of_int (if b then 1 else 0)"
| "py_float _ = Inl TypeError"

fun py_int :: "'c pyval \<Rightarrow> error + int" where
  "py_int (PInt n) = Inr n"
| "py_int (PBool b) = Inr (if b then 1 else 0)"
| "py_int _ = Inl TypeError"

text \<open>\<^verbatim>\<open>f * n\<close> for a double \<open>f\<close> and an integer \<open>n\<close>: \<open>n\<close> is converted first.\<close>

definition float_mul_int :: "pyfloat \<Rightarrow> int \<Rightarrow> error + pyfloat" where
  "float_mul_int f n =
    (case float_of_int n of Inl e \<Rightarrow> Inl e | Inr g \<Rightarrow> Inr (fmul f g))"

text \<open>
  \<^verbatim>\<open>a + b\<close> as \<^verbatim>\<open>sum\<close> uses it: the accumulator starts as the integer 0 and every
  item is a double.
\<close>

fun py_add :: "'c pyval \<Rightarrow> 'c pyval \<Rightarrow> error + 'c pyval" where
  "py_add (PInt a) (PInt b) = Inr (PInt (a + b))"
| "py_add (PInt a) (PFloat g) =
    (case float_of_int a of Inl e \<Rightarrow> Inl e | Inr f \<Rightarrow> Inr (PFloat (fadd f g)))"
| "py_add (PFloat f) (PInt b) =
    (case float_of_int b of Inl e \<Rightarrow> Inl e | Inr g \<Rightarrow> Inr (PFloat (fadd f g)))"
| "py_add (PFloat f) (PFloat g) = Inr (PFloat (fadd f g))"
| "py_add _ _ = Inl TypeError"

subsection \<open>Strings\<close>

text \<open>
  \<^verbatim>\<open>str.strip()\<close> removes the leading and trailing whitespace characters of the Unicode
  database, and \<^verbatim>\<open>str.lower()\<close> is the lower-casing of that database. Both tables are
  parameters of the model: \<open>isspace\<close> says which characters are whitespace, \<open>lower\<close>
  lower-cases a string. Every theorem below holds for all of them.
\<close>

record 'c str_ops =
  isspace :: "'c \<Rightarrow> bool"
  lower :: "'c list \<Rightarrow> 'c list"

definition strip :: "'c str_ops \<Rightarrow> 'c list \<Rightarrow> 'c list" where
  "strip U s = rev (dropWhile (isspace U) (rev (dropWhile (isspace U) s)))"

text \<open>
  The two tables on ASCII text, for the examples: the whitespace characters are
  \<^verbatim>\<open>\t \n \v \f \r\<close>, the separators \<^verbatim>\<open>0x1C\<close> to \<^verbatim>\<open>0x1F\<close> and the space;
  lower-casing maps \<^verbatim>\<open>A\<close> to \<^verbatim>\<open>Z\<close> to \<^verbatim>\<open>a\<close> to \<^verbatim>\<open>z\<close>.
\<close>

definition ascii_isspace :: "char \<Rightarrow> bool" where
  "ascii_isspace c =
    (c \<in> set [CHR 0x09, CHR 0x0A, CHR 0x0B, CHR 0x0C, CHR 0x0D,
               CHR 0x1C, CHR 0x1D, CHR 0x1E, CHR 0x1F, CHR '' ''])"

definition ascii_lower_char :: "char \<Rightarrow> char" where
  "ascii_lower_char c =
    (case map_of (zip ''ABCDEFGHIJKLMNOPQRSTUVWXYZ'' ''abcdefghijklmnopqrstuvwxyz'') c of
       Some d \<Rightarrow> d
     | None \<Rightarrow> c)"

definition ascii :: "char str_ops" where
  "ascii = \<lparr>isspace = ascii_isspace, lower = map ascii_lower_char\<rparr>"

subsection \<open>The object store\<close>

text \<open>
  A \<^verbatim>\<open>Producto\<close> object has the attributes \<^verbatim>\<open>_nombre\<close>, \<^verbatim>\<open>_precio\<close> and
  \<^verbatim>\<open>_cantidad\<close>; the constructor and the setters store a \<^verbatim>\<open>str\<close>, a \<^verbatim>\<open>float\<close>
  and an \<^verbatim>\<open>int\<close> there and nothing else writes them. Objects are shared by reference
  and mutated in place, so they live in a store: the address of an object is its index,
  a new object is appended, and an object is never freed.
\<close>

record 'c producto =
  nombre :: "'c list"
  precio :: pyfloat
  cantidad :: int

record 'c heap =
  producto_objs :: "'c producto list"
  list_objs :: "'c pyval list list"

definition empty_heap :: "'c heap" where
  "empty_heap = \<lparr>producto_objs = [], list_objs = []\<rparr>"

definition get_producto :: "'c heap \<Rightarrow> ref \<Rightarrow> 'c producto option" where
  "get_producto h r = (if r < length (producto_objs h) then Some (producto_objs h ! r) else None)"

definition get_list :: "'c heap \<Rightarrow> ref \<Rightarrow> 'c pyval list option" where
  "get_list h r = (if r < length (list_objs h) then Some (list_objs h ! r) else None)"

definition new_producto :: "'c heap \<Rightarrow> 'c producto \<Rightarrow> ref \<times> 'c heap" where
  "new_producto h p = (length (producto_objs h), h\<lparr>producto_objs := producto_objs h @ [p]\<rparr>)"

definition new_list :: "'c heap \<Rightarrow> 'c pyval list \<Rightarrow> ref \<times> 'c heap" where
  "new_list h xs = (length (list_objs h), h\<lparr>list_objs := list_objs h @ [xs]\<rparr>)"

definition set_producto :: "'c heap \<Rightarrow> ref \<Rightarrow> 'c producto \<Rightarrow> 'c heap" where
  "set_producto h r p = h\<lparr>producto_objs := (producto_objs h)[r := p]\<rparr>"

definition set_list :: "'c heap \<Rightarrow> ref \<Rightarrow> 'c pyval list \<Rightarrow> 'c heap" where
  "set_list h r xs = h\<lparr>list_objs := (list_objs h)[r := xs]\<rparr>"

text \<open>
  \<^verbatim>\<open>xs.append(v)\<close> of the built-in list, and the attribute read \<^verbatim>\<open>v.nombre\<close>, which
  raises \<^verbatim>\<open>AttributeError\<close> on a value that is not a \<^verbatim>\<open>Producto\<close>.
\<close>

definition list_append :: "ref \<Rightarrow> 'c pyval \<Rightarrow> 'c heap \<Rightarrow> (error + unit) \<times> 'c heap" where
  "list_append r v h =
    (case get_list h r of
       None \<Rightarrow> (Inl AttributeError, h)
     | Some xs \<Rightarrow> (Inr (), set_list h r (xs @ [v])))"

fun attr_nombre :: "'c heap \<Rightarrow> 'c pyval \<Rightarrow> error + 'c list" where
  "attr_nombre h (PProducto r) =
    (case get_producto h r of None \<Rightarrow> Inl AttributeError | Some p \<Rightarrow> Inr (nombre p))"
| "attr_nombre h _ = Inl AttributeError"

section \<open>The class Producto\<close>

text \<open>
  \<^verbatim>\<open>Producto(nombre, precio, cantidad)\<close>: the checks of \<^verbatim>\<open>__init__\<close> in the order of
  the source, then the three assignments. \<^verbatim>\<open>float(precio)\<close> is evaluated after every
  check has passed. A construction that raises leaves no object behind.
\<close>

definition Producto_init ::
  "'c str_ops \<Rightarrow> 'c pyval \<Rightarrow> 'c pyval \<Rightarrow> 'c pyval \<Rightarrow> 'c heap \<Rightarrow> (error + 'c pyval) \<times> 'c heap" where
  "Producto_init U a_nombre a_precio a_cantidad h =
    (case a_nombre of
       PStr s \<Rightarrow>
         (let nombre_normalizado = strip U s in
          if nombre_normalizado = [] then (Inl ValueError, h)
          else if \<not> (isinstance_int a_precio \<or> isinstance_float a_precio) \<or> isinstance_bool a_precio
            then (Inl TypeError, h)
          else if py_lt_zero a_precio then (Inl ValueError, h)
          else if \<not> isinstance_int a_cantidad \<or> isinstance_bool a_cantidad
            then (Inl TypeError, h)
          else if py_lt_zero a_cantidad then (Inl ValueError, h)
          else
            (case py_float a_precio of
               Inl e \<Rightarrow> (Inl e, h)
             | Inr f \<Rightarrow>
                 (case py_int a_cantidad of
                    Inl e \<Rightarrow> (Inl e, h)
                  | Inr n \<Rightarrow>
                      (let (r, h') = new_producto h
                             \<lparr>nombre = nombre_normalizado, precio = f, cantidad = n\<rparr>
                       in (Inr (PProducto r), h')))))
     | _ \<Rightarrow> (Inl TypeError, h))"

definition actualizar_precio :: "ref \<Rightarrow> 'c pyval \<Rightarrow> 'c heap \<Rightarrow> (error + unit) \<times> 'c heap" where
  "actualizar_precio self nuevo_precio h =
    (case get_producto h self of
       None \<Rightarrow> (Inl AttributeError, h)
     | Some p \<Rightarrow>
         if \<not> (isinstance_int nuevo_precio \<or> isinstance_float nuevo_precio)
              \<or> isinstance_bool nuevo_precio
           then (Inl TypeError, h)
         else if py_le_zero nuevo_precio then (Inl ValueError, h)
         else
           (case py_float nuevo_precio of
              Inl e \<Rightarrow> (Inl e, h)
            | Inr f \<Rightarrow> (Inr (), set_producto h self (p\<lparr>precio := f\<rparr>))))"

definition actualizar_cantidad :: "ref \<Rightarrow> 'c pyval \<Rightarrow> 'c heap \<Rightarrow> (error + unit) \<times> 'c heap" where
  "actualizar_cantidad self nueva_cantidad h =
    (case get_producto h self of
       None \<Rightarrow> (Inl AttributeError, h)
     | Some p \<Rightarrow>
         if \<not> isinstance_int nueva_cantidad \<or> isinstance_bool nueva_cantidad
           then (Inl TypeError, h)
         else if py_lt_zero nueva_cantidad then (Inl ValueError, h)
         else
           (case py_int nueva_cantidad of
              Inl e \<Rightarrow> (Inl e, h)
            | Inr n \<Rightarrow> (Inr (), set_producto h self (p\<lparr>cantidad := n\<rparr>))))"

text \<open>\<^verbatim>\<open>self._precio * self._cantidad\<close>: a double times an integer.\<close>

definition calcular_valor_total :: "ref \<Rightarrow> 'c heap \<Rightarrow> error + pyfloat" where
  "calcular_valor_total self h =
    (case get_producto h self of
       None \<Rightarrow> Inl AttributeError
     | Some p \<Rightarrow> float_mul_int (precio p) (cantidad p))"

section \<open>The class Inventario\<close>

text \<open>
  An \<^verbatim>\<open>Inventario\<close> object has the one attribute \<^verbatim>\<open>_productos\<close>, bound by
  \<^verbatim>\<open>__init__\<close> to a new empty list and never rebound: the object is the address of
  that list.
\<close>

record inventario =
  productos :: ref

definition Inventario_init :: "'c heap \<Rightarrow> inventario \<times> 'c heap" where
  "Inventario_init h = (let (r, h') = new_list h [] in (\<lparr>productos = r\<rparr>, h'))"

text \<open>The \<^verbatim>\<open>for\<close> loop of \<^verbatim>\<open>buscar_producto\<close> and the \<^verbatim>\<open>raise KeyError\<close> after it.\<close>

fun buscar_loop :: "'c str_ops \<Rightarrow> 'c heap \<Rightarrow> 'c list \<Rightarrow> 'c pyval list \<Rightarrow> error + 'c pyval" where
  "buscar_loop U h nombre_normalizado [] = Inl KeyError"
| "buscar_loop U h nombre_normalizado (producto # rest) =
    (case attr_nombre h producto of
       Inl e \<Rightarrow> Inl e
     | Inr nm \<Rightarrow>
         if lower U nm = lower U nombre_normalizado then Inr producto
         else buscar_loop U h nombre_normalizado rest)"

definition buscar_producto ::
  "'c str_ops \<Rightarrow> inventario \<Rightarrow> 'c pyval \<Rightarrow> 'c heap \<Rightarrow> error + 'c pyval" where
  "buscar_producto U self a_nombre h =
    (case a_nombre of
       PStr s \<Rightarrow>
         (let nombre_normalizado = strip U s in
          if nombre_normalizado = [] then Inl ValueError
          else
            (case get_list h (productos self) of
               None \<Rightarrow> Inl AttributeError
             | Some ps \<Rightarrow> buscar_loop U h nombre_normalizado ps))
     | _ \<Rightarrow> Inl TypeError)"

text \<open>
  \<^verbatim>\<open>agregar_producto\<close>: the search runs inside \<^verbatim>\<open>try\<close>; only \<^verbatim>\<open>KeyError\<close> is
  caught (the product is appended), every other exception of the search propagates, and
  a search that returns ends in \<^verbatim>\<open>raise ValueError\<close>.
\<close>

definition agregar_producto ::
  "'c str_ops \<Rightarrow> inventario \<Rightarrow> 'c pyval \<Rightarrow> 'c heap \<Rightarrow> (error + unit) \<times> 'c heap" where
  "agregar_producto U self producto h =
    (if \<not> isinstance_Producto producto then (Inl TypeError, h)
     else
       (case attr_nombre h producto of
          Inl e \<Rightarrow> (Inl e, h)
        | Inr nm \<Rightarrow>
            (case buscar_producto U self (PStr nm) h of
               Inl e \<Rightarrow>
                 if e = KeyError then list_append (productos self) producto h
                 else (Inl e, h)
             | Inr found \<Rightarrow> (Inl ValueError, h))))"

text \<open>
  \<^verbatim>\<open>p.calcular_valor_total()\<close> on an element of the list, and the built-in \<^verbatim>\<open>sum\<close>
  over the generator: from the integer 0, each item is computed and added in turn, left
  to right.
\<close>

fun call_calcular_valor_total :: "'c heap \<Rightarrow> 'c pyval \<Rightarrow> error + pyfloat" where
  "call_calcular_valor_total h (PProducto r) = calcular_valor_total r h"
| "call_calcular_valor_total h _ = Inl AttributeError"

fun sum_loop :: "'c heap \<Rightarrow> 'c pyval \<Rightarrow> 'c pyval list \<Rightarrow> error + 'c pyval" where
  "sum_loop h acc [] = Inr acc"
| "sum_loop h acc (p # ps) =
    (case call_calcular_valor_total h p of
       Inl e \<Rightarrow> Inl e
     | Inr t \<Rightarrow>
         (case py_add acc (PFloat t) of
            Inl e \<Rightarrow> Inl e
          | Inr acc' \<Rightarrow> sum_loop h acc' ps))"

definition calcular_valor_inventario :: "inventario \<Rightarrow> 'c heap \<Rightarrow> error + 'c pyval" where
  "calcular_valor_inventario self h =
    (case get_list h (productos self) of
       None \<Rightarrow> Inl AttributeError
     | Some ps \<Rightarrow> sum_loop h (PInt 0) ps)"

text \<open>\<^verbatim>\<open>list(self._productos)\<close>: a new list object with the same elements.\<close>

definition listar_productos :: "inventario \<Rightarrow> 'c heap \<Rightarrow> (error + 'c pyval) \<times> 'c heap" where
  "listar_productos self h =
    (case get_list h (productos self) of
       None \<Rightarrow> (Inl AttributeError, h)
     | Some ps \<Rightarrow> (let (r, h') = new_list h ps in (Inr (PList r), h')))"

section \<open>Well-formed states and runs\<close>

text \<open>
  What \<^verbatim>\<open>__init__\<close> establishes of a \<^verbatim>\<open>Producto\<close> and no method changes: the name
  is not empty and is its own \<^verbatim>\<open>strip()\<close>. Every object of the class is built by
  \<^verbatim>\<open>__init__\<close>, so every object in a store the program can reach is well formed.
\<close>

definition wf_producto :: "'c str_ops \<Rightarrow> 'c producto \<Rightarrow> bool" where
  "wf_producto U p = (nombre p \<noteq> [] \<and> strip U (nombre p) = nombre p)"

definition wf_heap :: "'c str_ops \<Rightarrow> 'c heap \<Rightarrow> bool" where
  "wf_heap U h = list_all (wf_producto U) (producto_objs h)"

text \<open>
  The products an inventory holds, in insertion order: the elements of the list bound
  to \<^verbatim>\<open>_productos\<close>. In a store of the program that list exists and every element
  is a reference to a \<^verbatim>\<open>Producto\<close> object (only \<^verbatim>\<open>agregar_producto\<close> appends to
  it, after its \<^verbatim>\<open>isinstance\<close> test).
\<close>

definition held :: "inventario \<Rightarrow> 'c heap \<Rightarrow> 'c pyval list" where
  "held invt h = (case get_list h (productos invt) of None \<Rightarrow> [] | Some ps \<Rightarrow> ps)"

fun is_producto_ref :: "'c heap \<Rightarrow> 'c pyval \<Rightarrow> bool" where
  "is_producto_ref h (PProducto r) = (r < length (producto_objs h))"
| "is_producto_ref h _ = False"

definition wf_inventario :: "inventario \<Rightarrow> 'c heap \<Rightarrow> bool" where
  "wf_inventario invt h =
    (productos invt < length (list_objs h) \<and> list_all (is_producto_ref h) (held invt h))"

text \<open>The name of a held product, and the lower-cased names of all held products.\<close>

definition nombre_de :: "'c heap \<Rightarrow> 'c pyval \<Rightarrow> 'c list" where
  "nombre_de h v = (case attr_nombre h v of Inl e \<Rightarrow> [] | Inr nm \<Rightarrow> nm)"

definition lower_names :: "'c str_ops \<Rightarrow> inventario \<Rightarrow> 'c heap \<Rightarrow> 'c list list" where
  "lower_names U invt h = map (\<lambda>v. lower U (nombre_de h v)) (held invt h)"

text \<open>
  A program that uses the two classes: it constructs products, calls the four methods
  of the inventory and the two setters of a product, in any order and with any
  arguments. \<open>step\<close> is the effect of one call on the store; \<^verbatim>\<open>buscar_producto\<close> and
  \<^verbatim>\<open>calcular_valor_inventario\<close> only read it. An exception ends the call, not the
  run (the menu of the source catches it and goes on).
\<close>

datatype 'c op =
    Construct "'c pyval" "'c pyval" "'c pyval"
  | Add "'c pyval"
  | Find "'c pyval"
  | Total_value
  | List_all
  | Set_price ref "'c pyval"
  | Set_quantity ref "'c pyval"

fun step :: "'c str_ops \<Rightarrow> inventario \<Rightarrow> 'c op \<Rightarrow> 'c heap \<Rightarrow> 'c heap" where
  "step U invt (Construct a b c) h = snd (Producto_init U a b c h)"
| "step U invt (Add v) h = snd (agregar_producto U invt v h)"
| "step U invt (Find v) h = (case buscar_producto U invt v h of Inl e \<Rightarrow> h | Inr p \<Rightarrow> h)"
| "step U invt Total_value h = (case calcular_valor_inventario invt h of Inl e \<Rightarrow> h | Inr t \<Rightarrow> h)"
| "step U invt List_all h = snd (listar_productos invt h)"
| "step U invt (Set_price r v) h = snd (actualizar_precio r v h)"
| "step U invt (Set_quantity r v) h = snd (actualizar_cantidad r v h)"

definition run :: "'c str_ops \<Rightarrow> inventario \<Rightarrow> 'c op list \<Rightarrow> 'c heap \<Rightarrow> 'c heap" where
  "run U invt ops h = fold (step U invt) ops h"

text \<open>The state after \<^verbatim>\<open>Inventario()\<close> in an empty store: the empty inventory.\<close>

definition inventario_0 :: inventario where
  "inventario_0 = fst (Inventario_init (empty_heap :: unit heap))"

definition heap_0 :: "'c heap" where
  "heap_0 = snd (Inventario_init empty_heap)"

section \<open>Conditions of the claims and the values of the examples\<close>

text \<open>
  A name that fails the emptiness check of \<^verbatim>\<open>__init__\<close> (a string whose
  \<^verbatim>\<open>strip()\<close> is empty), and a value that passes the numeric type check (an
  \<^verbatim>\<open>int\<close> or a \<^verbatim>\<open>float\<close> that is not a \<^verbatim>\<open>bool\<close>).
\<close>

definition nombre_vacio :: "'c str_ops \<Rightarrow> 'c pyval \<Rightarrow> bool" where
  "nombre_vacio U v = (case v of PStr s \<Rightarrow> strip U s = [] | _ \<Rightarrow> False)"

definition es_numero :: "'c pyval \<Rightarrow> bool" where
  "es_numero v = ((isinstance_int v \<or> isinstance_float v) \<and> \<not> isinstance_bool v)"

text \<open>
  The doubles that Python writes \<^verbatim>\<open>1.0\<close>, \<^verbatim>\<open>1.5\<close>, \<^verbatim>\<open>9.99\<close> (the double nearest
  to 999/100), \<^verbatim>\<open>20.0\<close> and \<^verbatim>\<open>75.0\<close>.
\<close>

definition f_1_0 :: pyfloat where
  "f_1_0 = Finite False 4503599627370496 (- 52)"

definition f_1_50 :: pyfloat where
  "f_1_50 = Finite False 6755399441055744 (- 52)"

definition f_9_99 :: pyfloat where
  "f_9_99 = Finite False 5623870034678907 (- 49)"

definition f_20_0 :: pyfloat where
  "f_20_0 = Finite False 5629499534213120 (- 48)"


text \<open>A store with the one object \<^verbatim>\<open>Producto("Pen", 1.50, 10)\<close>, at address 0.\<close>

definition pen :: "char producto" where
  "pen = \<lparr>nombre = ''Pen'', precio = f_1_50, cantidad = 10\<rparr>"

definition heap_pen :: "char heap" where
  "heap_pen = \<lparr>producto_objs = [pen], list_objs = []\<rparr>"


definition f_15_0 :: pyfloat where
  "f_15_0 = Finite False 8444249301319680 (- 49)"


text \<open>
  A held product matches a search argument \<open>s\<close> when its name and the trimmed argument
  are equal after lower-casing. The total value of a held product whose
  \<^verbatim>\<open>calcular_valor_total()\<close> returns.
\<close>

definition matches :: "'c str_ops \<Rightarrow> 'c heap \<Rightarrow> 'c list \<Rightarrow> 'c pyval \<Rightarrow> bool" where
  "matches U h s v = (lower U (nombre_de h v) = lower U (strip U s))"


text \<open>
  The stores of three scenarios, each run from the empty inventory. In the first,
  \<^verbatim>\<open>Producto("Widget", 1.0, 1)\<close> is added and \<^verbatim>\<open>Producto("WIDGET", 1.0, 2)\<close> is built
  and not yet added. In the second, \<^verbatim>\<open>Producto("Pen", 1.50, 10)\<close> and
  \<^verbatim>\<open>Producto("Book", 20.0, 3)\<close> are added. In the third, a product with the
  quantity \<^verbatim>\<open>10**400\<close> is added.
\<close>

definition heap_widget :: "char heap" where
  "heap_widget = run ascii inventario_0
     [Construct (PStr ''Widget'') (PFloat f_1_0) (PInt 1), Add (PProducto 0),
      Construct (PStr ''WIDGET'') (PFloat f_1_0) (PInt 2)] heap_0"

definition heap_pen_book :: "char heap" where
  "heap_pen_book = run ascii inventario_0
     [Construct (PStr ''Pen'') (PFloat f_1_50) (PInt 10), Add (PProducto 0),
      Construct (PStr ''Book'') (PFloat f_20_0) (PInt 3), Add (PProducto 1)] heap_0"


text \<open>
  The state of a program that uses the two classes: every \<^verbatim>\<open>Producto\<close> in the store is
  well formed, the inventory is well formed, and the lower-cased names of the held
  products are pairwise different.
\<close>

definition inventario_ok :: "'c str_ops \<Rightarrow> inventario \<Rightarrow> 'c heap \<Rightarrow> bool" where
  "inventario_ok U invt h =
    (wf_heap U h \<and> wf_inventario invt h \<and> distinct (lower_names U invt h))"


section \<open>Facts about the store, strings and conversions\<close>

lemma get_producto_set_producto:
  "get_producto (set_producto h r p) r' =
    (if r' < length (producto_objs h) then Some (if r' = r then p else producto_objs h ! r')
     else None)"
  by (simp add: get_producto_def set_producto_def nth_list_update)

lemma pen_at_0: "get_producto heap_pen 0 = Some pen"
  by (simp add: get_producto_def heap_pen_def)

text \<open>\<^verbatim>\<open>strip()\<close> of a stripped string changes nothing.\<close>

lemma dropWhile_rev_front:
  assumes "xs = [] \<or> \<not> P (hd xs)"
  shows "dropWhile P (rev (dropWhile P (rev xs))) = rev (dropWhile P (rev xs))"
proof -
  define u where "u = rev (dropWhile P (rev xs))"
  have split: "xs = u @ rev (takeWhile P (rev xs))"
    unfolding u_def by (metis rev_append rev_rev_ident takeWhile_dropWhile_id)
  have "dropWhile P u = u"
  proof (cases "u = []")
    case True
    then show ?thesis by simp
  next
    case False
    then have "hd xs = hd u" using split by (metis hd_append2)
    moreover have "xs \<noteq> []" using split False by auto
    ultimately have "\<not> P (hd u)" using assms by simp
    then show ?thesis using False by (simp add: dropWhile_eq_self_iff)
  qed
  then show ?thesis by (simp add: u_def)
qed

lemma strip_idem: "strip U (strip U s) = strip U s"
proof -
  have "dropWhile (isspace U) s = [] \<or> \<not> isspace U (hd (dropWhile (isspace U) s))"
    using hd_dropWhile by blast
  then show ?thesis
    unfolding strip_def by (simp only: dropWhile_rev_front rev_rev_ident dropWhile_idem)
qed

text \<open>Every integer from \<open>2\<^sup>1\<^sup>0\<^sup>2\<^sup>4\<close> on is too large for a double.\<close>

lemma round_dyadic_overflow:
  assumes "2 ^ 1024 \<le> M"
  shows "round_dyadic s M 0 = Infinity s"
proof -
  have pos: "0 < M" using assms by (smt (verit) zero_less_power)
  have "M < 2 ^ nat (bitlen M)" using bitlen_bounds [OF pos] by simp
  with assms have "(2::int) ^ 1024 < 2 ^ nat (bitlen M)" by linarith
  then have "1024 < nat (bitlen M)" by (rule power_less_imp_less_exp [rotated]) simp
  then have b: "1025 \<le> bitlen M" by linarith
  show ?thesis using pos b
    by (simp add: round_dyadic_def Let_def max_def)
qed

lemma float_of_int_overflow: "2 ^ 1024 \<le> n \<Longrightarrow> float_of_int n = Inl OverflowError"
proof -
  assume a: "2 ^ 1024 \<le> n"
  then have "0 \<le> n" by (smt (verit) zero_less_power)
  then have "\<bar>n\<bar> = n" by simp
  then show ?thesis using round_dyadic_overflow [of "\<bar>n\<bar>" "n < 0"] a
    by (simp add: float_of_int_def)
qed

text \<open>
  The integers that \<^verbatim>\<open>float()\<close> converts are exactly those of absolute value below
  \<open>2\<^sup>1\<^sup>0\<^sup>2\<^sup>4 - 2\<^sup>9\<^sup>7\<^sup>0\<close>: the largest double is \<open>2\<^sup>1\<^sup>0\<^sup>2\<^sup>4 - 2\<^sup>9\<^sup>7\<^sup>1\<close>, and from half
  a unit in the last place above it the integer rounds to \<open>2\<^sup>1\<^sup>0\<^sup>2\<^sup>4\<close>.
\<close>

lemma bitlen_le_1024:
  assumes "0 < M" and "M < 2 ^ 1024"
  shows "1 \<le> bitlen M \<and> bitlen M \<le> 1024"
proof -
  have b: "2 ^ nat (bitlen M - 1) \<le> M" using bitlen_bounds [OF assms(1)] by simp
  have pos: "1 \<le> bitlen M" using assms(1) by (simp add: bitlen_alt_def)
  from b assms(2) have "(2::int) ^ nat (bitlen M - 1) < 2 ^ 1024" by linarith
  then have "nat (bitlen M - 1) < 1024" by (rule power_less_imp_less_exp [rotated]) simp
  then show ?thesis using pos by linarith
qed

lemma round_dyadic_finite:
  assumes "0 \<le> M" and "M < 2 ^ 1024 - 2 ^ 970"
  shows "\<exists>m e. round_dyadic s M 0 = Finite s m e"
proof (cases "M = 0")
  case True
  then show ?thesis by (simp add: round_dyadic_def)
next
  case False
  then have pos: "0 < M" using assms(1) by simp
  have lt: "M < 2 ^ 1024" using assms(2) by simp
  note b = bitlen_le_1024 [OF pos lt]
  show ?thesis
  proof (cases "bitlen M \<le> 1023")
    case True
    then show ?thesis using pos b
      by (auto simp: round_dyadic_def Let_def max_def)
  next
    case False
    then have bl: "bitlen M = 1024" using b by linarith
    define q where "q = M div 2 ^ 971"
    define r where "r = M mod 2 ^ 971"
    have M: "M = q * 2 ^ 971 + r" by (simp add: q_def r_def)
    have r: "0 \<le> r" "r < 2 ^ 971" by (simp_all add: r_def)
    have q: "q \<le> 2 ^ 53 - 1"
    proof (rule ccontr)
      assume "\<not> q \<le> 2 ^ 53 - 1"
      then have "2 ^ 53 \<le> q" by simp
      then have "(2 ^ 53) * (2::int) ^ 971 \<le> q * 2 ^ 971" by (rule mult_right_mono) simp
      with M r lt show False by simp
    qed
    have nr: "q = 2 ^ 53 - 1 \<Longrightarrow> 2 * r < 2 ^ 971"
    proof -
      assume "q = 2 ^ 53 - 1"
      with M have "r = M - (2 ^ 53 - 1) * 2 ^ 971" by simp
      with assms(2) show ?thesis by simp
    qed
    show ?thesis
    proof (cases "2 ^ 971 < 2 * r \<or> (2 * r = 2 ^ 971 \<and> odd q)")
      case True
      then have "q + 1 \<noteq> 2 ^ 53" using q nr by auto
      then show ?thesis
        using pos bl True [unfolded q_def r_def]
        unfolding q_def r_def
        by (auto simp: round_dyadic_def Let_def max_def)
    next
      case False
      have "q \<noteq> 2 ^ 53" using q by simp
      then show ?thesis
        using pos bl False [unfolded q_def r_def]
        unfolding q_def r_def
        by (auto simp: round_dyadic_def Let_def max_def)
    qed
  qed
qed

lemma round_dyadic_overflow_ge:
  assumes "2 ^ 1024 - 2 ^ 970 \<le> M"
  shows "round_dyadic s M 0 = Infinity s"
proof (cases "2 ^ 1024 \<le> M")
  case True
  then show ?thesis by (rule round_dyadic_overflow)
next
  case False
  then have lt: "M < 2 ^ 1024" by simp
  have pos: "0 < M" using assms by simp
  have "2 ^ 1023 \<le> M" using assms by simp
  have bl: "bitlen M = 1024"
  proof -
    have "M < 2 ^ nat (bitlen M)" using bitlen_bounds [OF pos] by simp
    with \<open>2 ^ 1023 \<le> M\<close> have "(2::int) ^ 1023 < 2 ^ nat (bitlen M)" by linarith
    then have "1023 < nat (bitlen M)" by (rule power_less_imp_less_exp [rotated]) simp
    then show ?thesis using bitlen_le_1024 [OF pos lt] by linarith
  qed
  define q where "q = M div 2 ^ 971"
  define r where "r = M mod 2 ^ 971"
  have M: "M = q * 2 ^ 971 + r" by (simp add: q_def r_def)
  have r: "0 \<le> r" "r < 2 ^ 971" by (simp_all add: r_def)
  have q1: "q \<le> 2 ^ 53 - 1"
  proof (rule ccontr)
    assume "\<not> q \<le> 2 ^ 53 - 1"
    then have "2 ^ 53 \<le> q" by simp
    then have "(2 ^ 53) * (2::int) ^ 971 \<le> q * 2 ^ 971" by (rule mult_right_mono) simp
    with M r lt show False by simp
  qed
  have q2: "2 ^ 53 - 1 \<le> q"
  proof (rule ccontr)
    assume "\<not> 2 ^ 53 - 1 \<le> q"
    then have "q \<le> 2 ^ 53 - 2" by simp
    then have "q * (2::int) ^ 971 \<le> (2 ^ 53 - 2) * 2 ^ 971" by (rule mult_right_mono) simp
    with M r assms show False by simp
  qed
  from q1 q2 have q: "q = 2 ^ 53 - 1" by simp
  then have oq: "odd q" by simp
  from q M assms have "2 ^ 971 \<le> 2 * r" by simp
  then have m: "(if 2 ^ 971 < 2 * r \<or> (2 * r = 2 ^ 971 \<and> odd q) then q + 1 else q) = 2 ^ 53"
    using q oq by auto
  show ?thesis
    using pos bl m [unfolded q_def r_def]
    by (simp add: round_dyadic_def Let_def max_def split: if_splits)
qed

lemma float_of_int_overflow_iff:
  "(float_of_int n = Inl OverflowError) = (2 ^ 1024 - 2 ^ 970 \<le> \<bar>n\<bar>)"
proof (cases "2 ^ 1024 - 2 ^ 970 \<le> \<bar>n\<bar>")
  case True
  then show ?thesis
    using round_dyadic_overflow_ge [of "\<bar>n\<bar>" "n < 0"] by (simp add: float_of_int_def)
next
  case False
  then have "\<bar>n\<bar> < 2 ^ 1024 - 2 ^ 970" by simp
  then obtain m e where "round_dyadic (n < 0) \<bar>n\<bar> 0 = Finite (n < 0) m e"
    using round_dyadic_finite [of "\<bar>n\<bar>" "n < 0"] by auto
  then show ?thesis using False by (simp add: float_of_int_def)
qed

lemma float_of_int_cases: "float_of_int n = Inl OverflowError \<or> (\<exists>f. float_of_int n = Inr f)"
  by (simp add: float_of_int_def split: pyfloat.splits)

lemma float_of_int_error: "float_of_int n = Inl e \<Longrightarrow> e = OverflowError"
  by (auto simp: float_of_int_def split: pyfloat.splits)

lemma float_of_int_googol: "float_of_int (10 ^ 400) = Inl OverflowError"
  by (rule float_of_int_overflow) simp

lemma py_float_es_numero:
  "es_numero v \<Longrightarrow> py_float v = Inl e \<Longrightarrow> e = OverflowError \<and> (\<exists>n. v = PInt n)"
  by (cases v) (auto simp: es_numero_def dest: float_of_int_error)

lemma py_ge_zero_not_lt: "py_ge_zero v \<Longrightarrow> \<not> py_lt_zero v"
proof (cases v)
  case (PFloat f)
  assume "py_ge_zero v"
  with PFloat show ?thesis by (cases f) auto
qed auto






text \<open>The stores of the scenarios, evaluated.\<close>

lemmas eval_defs =
  run_def heap_0_def inventario_0_def Inventario_init_def empty_heap_def new_list_def
  Producto_init_def new_producto_def agregar_producto_def buscar_producto_def list_append_def
  get_list_def get_producto_def set_list_def strip_def ascii_def ascii_isspace_def
  ascii_lower_char_def Let_def f_1_0_def f_1_50_def f_20_0_def

lemma inventario_0_eq: "inventario_0 = \<lparr>productos = 0\<rparr>"
  by (simp add: eval_defs)

lemma heap_widget_eq:
  "heap_widget = \<lparr>producto_objs =
      [\<lparr>nombre = ''Widget'', precio = f_1_0, cantidad = 1\<rparr>,
       \<lparr>nombre = ''WIDGET'', precio = f_1_0, cantidad = 2\<rparr>],
     list_objs = [[PProducto 0]]\<rparr>"
  by (simp add: heap_widget_def eval_defs)

lemma heap_pen_book_eq:
  "heap_pen_book = \<lparr>producto_objs =
      [\<lparr>nombre = ''Pen'', precio = f_1_50, cantidad = 10\<rparr>,
       \<lparr>nombre = ''Book'', precio = f_20_0, cantidad = 3\<rparr>],
     list_objs = [[PProducto 0, PProducto 1]]\<rparr>"
  by (simp add: heap_pen_book_def eval_defs)


text \<open>Reading the list of an inventory, and the search loop as a search for the first match.\<close>

lemma attr_nombre_ref: "is_producto_ref h v \<Longrightarrow> attr_nombre h v = Inr (nombre_de h v)"
  by (cases v) (simp_all add: nombre_de_def get_producto_def)

lemma held_wf: "wf_inventario invt h \<Longrightarrow> get_list h (productos invt) = Some (held invt h)"
  by (simp add: wf_inventario_def held_def get_list_def)

lemma held_set_list:
  "productos invt < length (list_objs h) \<Longrightarrow> held invt (set_list h (productos invt) xs) = xs"
  by (simp add: held_def get_list_def set_list_def)

lemma buscar_loop_find:
  assumes "list_all (is_producto_ref h) ps"
  shows "buscar_loop U h n ps =
    (case find (\<lambda>v. lower U (nombre_de h v) = lower U n) ps of
       None \<Rightarrow> Inl KeyError
     | Some v \<Rightarrow> Inr v)"
  using assms by (induction ps) (simp_all add: attr_nombre_ref)

section \<open>Producto: validation\<close>

text \<open>
  Claim C5. When the arguments of the constructor have the required kinds (the name a
  string, the price an int or a float that is not a bool, the quantity an int that is
  not a bool), construction fails with \<^verbatim>\<open>ValueError\<close> (InvalidValue) whenever the
  trimmed name is empty, or the price is below zero, or the quantity is below zero. The
  store is left as it was.
\<close>

theorem Producto_init_invalid_value:
  assumes "isinstance_int a_precio \<or> isinstance_float a_precio"
    and "\<not> isinstance_bool a_precio"
    and "isinstance_int a_cantidad"
    and "\<not> isinstance_bool a_cantidad"
    and "strip U s = [] \<or> py_lt_zero a_precio \<or> py_lt_zero a_cantidad"
  shows "Producto_init U (PStr s) a_precio a_cantidad h = (Inl ValueError, h)"
  using assms by (auto simp: Producto_init_def Let_def)

theorem Producto_init_invalid_value_witness:
  "Producto_init ascii (PStr ''Pen'') (PInt (- 5)) (PInt 3) empty_heap = (Inl ValueError, empty_heap)
   \<and> Producto_init ascii (PStr ''  '') (PInt 5) (PInt 3) empty_heap = (Inl ValueError, empty_heap)
   \<and> Producto_init ascii (PStr ''Pen'') (PFloat f_1_50) (PInt (- 1)) empty_heap
       = (Inl ValueError, empty_heap)"
  using Producto_init_invalid_value [of "PInt (- 5)" "PInt 3" ascii "''Pen''" empty_heap]
    Producto_init_invalid_value [of "PInt 5" "PInt 3" ascii "''  ''" empty_heap]
    Producto_init_invalid_value [of "PFloat f_1_50" "PInt (- 1)" ascii "''Pen''" empty_heap]
  by (simp add: strip_def ascii_def ascii_isspace_def)

text \<open>
  Claim C6, as the specification states it: a boolean passed as price or quantity makes
  the constructor fail with \<^verbatim>\<open>TypeError\<close> (InvalidType). It does not when an earlier
  check of \<^verbatim>\<open>__init__\<close> fails first: with an empty name and the price \<^verbatim>\<open>True\<close> the
  constructor raises \<^verbatim>\<open>ValueError\<close>.
\<close>

theorem boolean_precio_empty_nombre_counterexample:
  "Producto_init ascii (PStr []) (PBool True) (PInt 1) empty_heap = (Inl ValueError, empty_heap)"
  by (simp add: Producto_init_def strip_def)

text \<open>
  Claim C6, amended. A boolean is never accepted. \<^verbatim>\<open>actualizar_precio\<close> and
  \<^verbatim>\<open>actualizar_cantidad\<close> of a product fail with \<^verbatim>\<open>TypeError\<close> on every boolean.
  The constructor with a boolean price fails with \<^verbatim>\<open>TypeError\<close>, unless the name is
  a string whose trim is empty (then with \<^verbatim>\<open>ValueError\<close>, from the check of the
  name). The constructor with a boolean quantity fails with \<^verbatim>\<open>TypeError\<close>, unless the
  name is a string whose trim is empty or the name is a string and the price a number
  below zero (then with \<^verbatim>\<open>ValueError\<close>, from the earlier check). The store is left as
  it was.
\<close>

theorem boolean_argument_rejected:
  "Producto_init U a_nombre (PBool b) a_cantidad h =
     (if nombre_vacio U a_nombre then (Inl ValueError, h) else (Inl TypeError, h))
   \<and> Producto_init U a_nombre a_precio (PBool b) h =
     (if nombre_vacio U a_nombre
         \<or> (isinstance_str a_nombre \<and> es_numero a_precio \<and> py_lt_zero a_precio)
      then (Inl ValueError, h) else (Inl TypeError, h))
   \<and> (get_producto h self = Some p \<longrightarrow>
        actualizar_precio self (PBool b) h = (Inl TypeError, h)
        \<and> actualizar_cantidad self (PBool b) h = (Inl TypeError, h))"
proof (intro conjI impI)
  show "Producto_init U a_nombre (PBool b) a_cantidad h =
     (if nombre_vacio U a_nombre then (Inl ValueError, h) else (Inl TypeError, h))"
    by (cases a_nombre) (simp_all add: Producto_init_def Let_def nombre_vacio_def)
  show "Producto_init U a_nombre a_precio (PBool b) h =
     (if nombre_vacio U a_nombre
         \<or> (isinstance_str a_nombre \<and> es_numero a_precio \<and> py_lt_zero a_precio)
      then (Inl ValueError, h) else (Inl TypeError, h))"
    by (cases a_nombre) (simp_all add: Producto_init_def Let_def nombre_vacio_def es_numero_def)
next
  assume "get_producto h self = Some p"
  then show "actualizar_precio self (PBool b) h = (Inl TypeError, h)"
    by (simp add: actualizar_precio_def)
next
  assume "get_producto h self = Some p"
  then show "actualizar_cantidad self (PBool b) h = (Inl TypeError, h)"
    by (simp add: actualizar_cantidad_def)
qed

theorem boolean_argument_rejected_witness:
  "Producto_init ascii (PStr ''Pen'') (PBool True) (PInt 3) empty_heap = (Inl TypeError, empty_heap)
   \<and> Producto_init ascii (PStr ''Pen'') (PFloat f_1_50) (PBool False) empty_heap
       = (Inl TypeError, empty_heap)
   \<and> actualizar_precio 0 (PBool True) heap_pen = (Inl TypeError, heap_pen)
   \<and> actualizar_cantidad 0 (PBool True) heap_pen = (Inl TypeError, heap_pen)"
  using boolean_argument_rejected
      [where U = ascii and a_nombre = "PStr ''Pen''" and b = True and a_cantidad = "PInt 3"
         and h = empty_heap]
    boolean_argument_rejected
      [where U = ascii and a_nombre = "PStr ''Pen''" and b = False
         and a_precio = "PFloat f_1_50" and h = empty_heap]
    boolean_argument_rejected [where b = True and h = heap_pen and self = 0 and p = pen]
    pen_at_0
  by (simp add: nombre_vacio_def es_numero_def f_1_50_def strip_def ascii_def ascii_isspace_def)

section \<open>Producto: the setters\<close>

text \<open>
  Claim C10. When \<^verbatim>\<open>actualizar_precio\<close> or \<^verbatim>\<open>actualizar_cantidad\<close> fails, with any
  exception, the store is the one before the call: name, price and quantity of the
  product are unchanged. When \<^verbatim>\<open>actualizar_precio\<close> succeeds the name and the quantity
  of the product are unchanged, and when \<^verbatim>\<open>actualizar_cantidad\<close> succeeds the name and
  the price are.
\<close>

theorem setters_atomic:
  "(actualizar_precio self v h = (Inl e, h') \<longrightarrow> h' = h)
   \<and> (actualizar_cantidad self v h = (Inl e, h') \<longrightarrow> h' = h)
   \<and> (actualizar_precio self v h = (Inr (), h') \<longrightarrow>
        (\<exists>p p'. get_producto h self = Some p \<and> get_producto h' self = Some p'
           \<and> nombre p' = nombre p \<and> cantidad p' = cantidad p))
   \<and> (actualizar_cantidad self v h = (Inr (), h') \<longrightarrow>
        (\<exists>p p'. get_producto h self = Some p \<and> get_producto h' self = Some p'
           \<and> nombre p' = nombre p \<and> precio p' = precio p))"
proof (intro conjI impI)
  assume "actualizar_precio self v h = (Inl e, h')"
  then show "h' = h"
    by (auto simp: actualizar_precio_def split: option.splits if_splits sum.splits)
next
  assume "actualizar_cantidad self v h = (Inl e, h')"
  then show "h' = h"
    by (auto simp: actualizar_cantidad_def split: option.splits if_splits sum.splits)
next
  assume "actualizar_precio self v h = (Inr (), h')"
  then obtain p f where p: "get_producto h self = Some p"
    and h': "h' = set_producto h self (p\<lparr>precio := f\<rparr>)"
    by (auto simp: actualizar_precio_def split: option.splits if_splits sum.splits)
  from p have "self < length (producto_objs h)"
    by (simp add: get_producto_def split: if_splits)
  then have "get_producto h' self = Some (p\<lparr>precio := f\<rparr>)"
    by (simp add: h' get_producto_set_producto)
  with p show "\<exists>p p'. get_producto h self = Some p \<and> get_producto h' self = Some p'
           \<and> nombre p' = nombre p \<and> cantidad p' = cantidad p"
    by simp
next
  assume "actualizar_cantidad self v h = (Inr (), h')"
  then obtain p n where p: "get_producto h self = Some p"
    and h': "h' = set_producto h self (p\<lparr>cantidad := n\<rparr>)"
    by (auto simp: actualizar_cantidad_def split: option.splits if_splits sum.splits)
  from p have "self < length (producto_objs h)"
    by (simp add: get_producto_def split: if_splits)
  then have "get_producto h' self = Some (p\<lparr>cantidad := n\<rparr>)"
    by (simp add: h' get_producto_set_producto)
  with p show "\<exists>p p'. get_producto h self = Some p \<and> get_producto h' self = Some p'
           \<and> nombre p' = nombre p \<and> precio p' = precio p"
    by simp
qed

lemma actualizar_precio_pen_zero:
  "actualizar_precio 0 (PInt 0) heap_pen = (Inl ValueError, heap_pen)"
  by (simp add: actualizar_precio_def pen_at_0)

lemma actualizar_precio_pen_9_99:
  "actualizar_precio 0 (PFloat f_9_99) heap_pen
     = (Inr (), set_producto heap_pen 0 (pen\<lparr>precio := f_9_99\<rparr>))"
  by (simp add: actualizar_precio_def pen_at_0 f_9_99_def)

lemma actualizar_cantidad_pen_7:
  "actualizar_cantidad 0 (PInt 7) heap_pen
     = (Inr (), set_producto heap_pen 0 (pen\<lparr>cantidad := 7\<rparr>))"
  by (simp add: actualizar_cantidad_def pen_at_0)

lemma actualizar_cantidad_pen_negative:
  "actualizar_cantidad 0 (PInt (- 1)) heap_pen = (Inl ValueError, heap_pen)"
  by (simp add: actualizar_cantidad_def pen_at_0)

theorem setters_atomic_witness:
  "actualizar_precio 0 (PInt 0) heap_pen = (Inl ValueError, heap_pen)
   \<and> actualizar_cantidad 0 (PInt (- 1)) heap_pen = (Inl ValueError, heap_pen)
   \<and> (\<exists>p'. get_producto (snd (actualizar_precio 0 (PFloat f_9_99) heap_pen)) 0 = Some p'
         \<and> nombre p' = ''Pen'' \<and> cantidad p' = 10)
   \<and> (\<exists>p'. get_producto (snd (actualizar_cantidad 0 (PInt 7) heap_pen)) 0 = Some p'
         \<and> nombre p' = ''Pen'' \<and> precio p' = f_1_50)"
  using setters_atomic [of 0 "PFloat f_9_99" heap_pen ValueError
      "set_producto heap_pen 0 (pen\<lparr>precio := f_9_99\<rparr>)"]
    setters_atomic [of 0 "PInt 7" heap_pen ValueError
      "set_producto heap_pen 0 (pen\<lparr>cantidad := 7\<rparr>)"]
    setters_atomic [of 0 "PInt 0" heap_pen ValueError heap_pen]
    actualizar_precio_pen_zero actualizar_precio_pen_9_99
    actualizar_cantidad_pen_7 actualizar_cantidad_pen_negative pen_at_0
  by (auto simp: pen_def)

text \<open>
  Claim C7, as the specification states it: for a non-boolean number, the setter fails
  with \<^verbatim>\<open>ValueError\<close> when the new price is at most zero and otherwise succeeds. It
  does not succeed on the integer \<^verbatim>\<open>10**400\<close>: \<^verbatim>\<open>float(nuevo_precio)\<close> raises
  \<^verbatim>\<open>OverflowError\<close>.
\<close>

theorem actualizar_precio_huge_int_counterexample:
  "actualizar_precio 0 (PInt (10 ^ 400)) heap_pen = (Inl OverflowError, heap_pen)"
  using float_of_int_googol by (simp add: actualizar_precio_def pen_at_0)

text \<open>
  Claim C7, amended. For a product and a new price that is an int or a float and not a
  bool: \<^verbatim>\<open>actualizar_precio\<close> fails with \<^verbatim>\<open>ValueError\<close> when the new price is at
  most zero (a stricter test than the constructor's); otherwise, when
  \<^verbatim>\<open>float(nuevo_precio)\<close> returns, it succeeds and the stored price becomes that
  double, the rest of the store unchanged; and when \<^verbatim>\<open>float(nuevo_precio)\<close> raises,
  it fails with \<^verbatim>\<open>OverflowError\<close> and changes nothing. The conversion returns on
  every float, and raises on an int exactly when its absolute value is at least
  \<open>2\<^sup>1\<^sup>0\<^sup>2\<^sup>4 - 2\<^sup>9\<^sup>7\<^sup>0\<close>. The prices 0 and -5 fail with \<^verbatim>\<open>ValueError\<close> and 9.99 succeeds
  (the witness).
\<close>

theorem actualizar_precio_spec:
  assumes "get_producto h self = Some p" and "es_numero v"
  shows "actualizar_precio self v h =
      (if py_le_zero v then (Inl ValueError, h)
       else case py_float v of
              Inr f \<Rightarrow> (Inr (), set_producto h self (p\<lparr>precio := f\<rparr>))
            | Inl e \<Rightarrow> (Inl OverflowError, h))
    \<and> (\<forall>g. v = PFloat g \<longrightarrow> py_float v = Inr g)
    \<and> (\<forall>n. v = PInt n \<longrightarrow>
          (py_float v = Inl OverflowError) = (2 ^ 1024 - 2 ^ 970 \<le> \<bar>n\<bar>))"
proof (intro conjI allI impI)
  have "py_float v = Inl e \<Longrightarrow> e = OverflowError" for e
    using py_float_es_numero [OF assms(2)] by blast
  then show "actualizar_precio self v h =
      (if py_le_zero v then (Inl ValueError, h)
       else case py_float v of
              Inr f \<Rightarrow> (Inr (), set_producto h self (p\<lparr>precio := f\<rparr>))
            | Inl e \<Rightarrow> (Inl OverflowError, h))"
    using assms by (auto simp: actualizar_precio_def es_numero_def split: sum.splits)
next
  fix g assume "v = PFloat g"
  then show "py_float v = Inr g" by simp
next
  fix n assume "v = PInt n"
  then show "(py_float v = Inl OverflowError) = (2 ^ 1024 - 2 ^ 970 \<le> \<bar>n\<bar>)"
    by (simp only: py_float.simps float_of_int_overflow_iff)
qed

theorem actualizar_precio_spec_witness:
  "actualizar_precio 0 (PInt 0) heap_pen = (Inl ValueError, heap_pen)
   \<and> actualizar_precio 0 (PInt (- 5)) heap_pen = (Inl ValueError, heap_pen)
   \<and> actualizar_precio 0 (PFloat f_9_99) heap_pen
       = (Inr (), set_producto heap_pen 0 (pen\<lparr>precio := f_9_99\<rparr>))
   \<and> get_producto (set_producto heap_pen 0 (pen\<lparr>precio := f_9_99\<rparr>)) 0
       = Some \<lparr>nombre = ''Pen'', precio = f_9_99, cantidad = 10\<rparr>"
  using actualizar_precio_spec [OF pen_at_0, of "PInt 0"]
    actualizar_precio_spec [OF pen_at_0, of "PInt (- 5)"]
    actualizar_precio_spec [OF pen_at_0, of "PFloat f_9_99"]
  by (simp add: es_numero_def f_9_99_def get_producto_set_producto heap_pen_def pen_def)

section \<open>Producto: construction and total value\<close>

text \<open>
  Claim C1, as the specification states it: for every name with a non-empty trim, every
  non-boolean number at least zero as price and every non-boolean integer at least zero
  as quantity, construction succeeds. It does not for the integer price \<^verbatim>\<open>10**400\<close>:
  every check passes and \<^verbatim>\<open>float(precio)\<close> raises \<^verbatim>\<open>OverflowError\<close>.
\<close>

theorem Producto_init_huge_precio_counterexample:
  "Producto_init ascii (PStr ''Pen'') (PInt (10 ^ 400)) (PInt 1) empty_heap
     = (Inl OverflowError, empty_heap)"
  using float_of_int_googol
  by (simp add: Producto_init_def strip_def ascii_def ascii_isspace_def)

text \<open>
  Claim C1, amended. For every name that is a string with a non-empty trim, every price
  that is a number (not a bool) at least zero and that \<^verbatim>\<open>float()\<close> converts (every
  float; an int exactly when it is below \<open>2\<^sup>1\<^sup>0\<^sup>2\<^sup>4 - 2\<^sup>9\<^sup>7\<^sup>0\<close>), and every integer quantity at
  least zero, construction succeeds: the new object holds the trimmed name, the price as
  a double and the quantity. Its \<^verbatim>\<open>calcular_valor_total()\<close> is the floating-point
  product of that double and the quantity: \<^verbatim>\<open>OverflowError\<close> when the quantity is too
  large for a double (at least \<open>2\<^sup>1\<^sup>0\<^sup>2\<^sup>4 - 2\<^sup>9\<^sup>7\<^sup>0\<close>), and otherwise the product of the two
  doubles, rounded once.
\<close>

theorem Producto_init_valid:
  assumes "strip U s \<noteq> []"
    and "es_numero a_precio" and "py_ge_zero a_precio" and "py_float a_precio = Inr f"
    and "0 \<le> q"
  shows "Producto_init U (PStr s) a_precio (PInt q) h =
      (Inr (PProducto (length (producto_objs h))),
       h\<lparr>producto_objs :=
           producto_objs h @ [\<lparr>nombre = strip U s, precio = f, cantidad = q\<rparr>]\<rparr>)
    \<and> calcular_valor_total (length (producto_objs h))
        (snd (Producto_init U (PStr s) a_precio (PInt q) h))
      = (case float_of_int q of Inl e \<Rightarrow> Inl OverflowError | Inr g \<Rightarrow> Inr (fmul f g))
    \<and> (float_of_int q = Inl OverflowError) = (2 ^ 1024 - 2 ^ 970 \<le> q)
    \<and> (\<forall>g. a_precio = PFloat g \<longrightarrow> f = g)
    \<and> (\<forall>n. a_precio = PInt n \<longrightarrow> n < 2 ^ 1024 - 2 ^ 970)"
proof (intro conjI allI impI)
  show 1: "Producto_init U (PStr s) a_precio (PInt q) h =
      (Inr (PProducto (length (producto_objs h))),
       h\<lparr>producto_objs :=
           producto_objs h @ [\<lparr>nombre = strip U s, precio = f, cantidad = q\<rparr>]\<rparr>)"
    using assms py_ge_zero_not_lt [OF assms(3)]
    by (simp add: Producto_init_def Let_def es_numero_def new_producto_def)
  have "float_of_int q = Inl e \<Longrightarrow> e = OverflowError" for e
    by (rule float_of_int_error)
  then show "calcular_valor_total (length (producto_objs h))
        (snd (Producto_init U (PStr s) a_precio (PInt q) h))
      = (case float_of_int q of Inl e \<Rightarrow> Inl OverflowError | Inr g \<Rightarrow> Inr (fmul f g))"
    by (auto simp: 1 calcular_valor_total_def get_producto_def float_mul_int_def
        split: sum.splits)
next
  show "(float_of_int q = Inl OverflowError) = (2 ^ 1024 - 2 ^ 970 \<le> q)"
    using assms(5) by (simp only: float_of_int_overflow_iff abs_of_nonneg)
next
  fix g assume "a_precio = PFloat g"
  with assms(4) show "f = g" by simp
next
  fix n assume n: "a_precio = PInt n"
  with assms(4) have "float_of_int n \<noteq> Inl OverflowError" by simp
  then have "\<not> 2 ^ 1024 - 2 ^ 970 \<le> \<bar>n\<bar>"
    by (simp only: float_of_int_overflow_iff not_False_eq_True)
  moreover have "0 \<le> n" using assms(3) n by simp
  ultimately show "n < 2 ^ 1024 - 2 ^ 970" by (simp only: abs_of_nonneg not_le)
qed

theorem Producto_init_valid_witness:
  "Producto_init ascii (PStr '' Pen '') (PFloat f_1_50) (PInt 10) empty_heap
     = (Inr (PProducto 0), heap_pen)
   \<and> calcular_valor_total 0 heap_pen = Inr f_15_0"
proof -
  have strip: "strip ascii '' Pen '' = ''Pen''"
    by (simp add: strip_def ascii_def ascii_isspace_def)
  have h1: "strip ascii '' Pen '' \<noteq> []" by (simp add: strip)
  have h2: "es_numero (PFloat f_1_50 :: char pyval)" by (simp add: es_numero_def)
  have h3: "py_ge_zero (PFloat f_1_50 :: char pyval)" by (simp add: f_1_50_def)
  have h4: "py_float (PFloat f_1_50 :: char pyval) = Inr f_1_50" by simp
  have h5: "(0::int) \<le> 10" by simp
  note t = Producto_init_valid [OF h1 h2 h3 h4 h5, of empty_heap]
  from t have 1: "Producto_init ascii (PStr '' Pen '') (PFloat f_1_50) (PInt 10) empty_heap
      = (Inr (PProducto 0), heap_pen)"
    by (simp add: strip heap_pen_def pen_def empty_heap_def)
  have 2: "float_of_int 10 = Inr (Finite False 5629499534213120 (- 49))"
    by code_simp
  have 3: "fmul f_1_50 (Finite False 5629499534213120 (- 49)) = f_15_0"
    by code_simp
  from t have "calcular_valor_total 0 heap_pen = Inr f_15_0"
    unfolding 1 by (simp add: empty_heap_def 2 3)
  with 1 show ?thesis by simp
qed

section \<open>Inventario: search and insertion\<close>

text \<open>
  Claim C3. In a store where the inventory is well formed, \<^verbatim>\<open>buscar_producto\<close> fails
  with \<^verbatim>\<open>TypeError\<close> (InvalidType) when the argument is not a string, with
  \<^verbatim>\<open>ValueError\<close> (InvalidValue) when the trimmed argument is empty, with
  \<^verbatim>\<open>KeyError\<close> (NotFound) when no held product's name equals the trimmed argument
  after lower-casing both, and otherwise returns the first held product, in insertion
  order, whose name does. Searching \<^verbatim>\<open>" widget "\<close> finds the product named
  \<^verbatim>\<open>"Widget"\<close> (the witness).
\<close>

theorem buscar_producto_spec:
  assumes "wf_inventario invt h"
  shows "(\<not> isinstance_str a \<longrightarrow> buscar_producto U invt a h = Inl TypeError)
    \<and> (\<forall>s. a = PStr s \<longrightarrow>
          buscar_producto U invt a h =
            (if strip U s = [] then Inl ValueError
             else case find (matches U h s) (held invt h) of
                    None \<Rightarrow> Inl KeyError
                  | Some v \<Rightarrow> Inr v))
    \<and> (\<forall>s. (find (matches U h s) (held invt h) = None)
            = (\<forall>v \<in> set (held invt h). \<not> matches U h s v))"
proof (intro conjI allI impI)
  assume "\<not> isinstance_str a"
  then show "buscar_producto U invt a h = Inl TypeError"
    by (cases a) (simp_all add: buscar_producto_def)
next
  fix s assume "a = PStr s"
  moreover have "list_all (is_producto_ref h) (held invt h)"
    using assms by (simp add: wf_inventario_def)
  ultimately show "buscar_producto U invt a h =
            (if strip U s = [] then Inl ValueError
             else case find (matches U h s) (held invt h) of
                    None \<Rightarrow> Inl KeyError
                  | Some v \<Rightarrow> Inr v)"
    using held_wf [OF assms]
    by (simp add: buscar_producto_def Let_def buscar_loop_find matches_def [abs_def])
next
  fix s
  show "(find (matches U h s) (held invt h) = None)
            = (\<forall>v \<in> set (held invt h). \<not> matches U h s v)"
    by (auto simp: find_None_iff)
qed

lemma wf_heap_widget: "wf_inventario inventario_0 heap_widget"
  by (simp add: wf_inventario_def held_def get_list_def heap_widget_eq inventario_0_eq)

lemma held_heap_widget: "held inventario_0 heap_widget = [PProducto 0]"
  by (simp add: held_def get_list_def heap_widget_eq inventario_0_eq)

theorem buscar_producto_spec_witness:
  "buscar_producto ascii inventario_0 (PStr '' widget '') heap_widget = Inr (PProducto 0)
   \<and> attr_nombre heap_widget (PProducto 0) = Inr ''Widget''
   \<and> buscar_producto ascii inventario_0 (PStr ''Nonexistent'') heap_widget = Inl KeyError
   \<and> buscar_producto ascii inventario_0 (PStr ''  '') heap_widget = Inl ValueError
   \<and> buscar_producto ascii inventario_0 (PInt 7) heap_widget = Inl TypeError"
  using buscar_producto_spec [OF wf_heap_widget, of "PStr '' widget ''" ascii]
    buscar_producto_spec [OF wf_heap_widget, of "PStr ''Nonexistent''" ascii]
    buscar_producto_spec [OF wf_heap_widget, of "PStr ''  ''" ascii]
    buscar_producto_spec [OF wf_heap_widget, of "PInt 7" ascii]
  by (simp add: held_heap_widget matches_def nombre_de_def)
    (simp add: heap_widget_eq get_producto_def strip_def ascii_def ascii_isspace_def
      ascii_lower_char_def)

text \<open>
  Claim C2. In a store where the inventory is well formed, \<^verbatim>\<open>agregar_producto\<close> fails
  with \<^verbatim>\<open>TypeError\<close> (InvalidType) when the argument is not a \<^verbatim>\<open>Producto\<close>. For a
  \<^verbatim>\<open>Producto\<close> (an object as its constructor builds it), it fails with
  \<^verbatim>\<open>ValueError\<close> (DuplicateKey) when a held product has the same name after
  lower-casing, and the store is unchanged; otherwise the product is appended: the held
  products are the ones before, in their order, followed by the new one. Adding
  \<^verbatim>\<open>"Widget"\<close> and then \<^verbatim>\<open>"WIDGET"\<close> fails (the witness).
\<close>

theorem agregar_producto_spec:
  assumes "wf_inventario invt h"
  shows "(\<not> isinstance_Producto v \<longrightarrow> agregar_producto U invt v h = (Inl TypeError, h))
    \<and> (\<forall>r p. v = PProducto r \<and> get_producto h r = Some p \<and> wf_producto U p \<longrightarrow>
          agregar_producto U invt v h =
            (if lower U (nombre p) \<in> set (lower_names U invt h) then (Inl ValueError, h)
             else (Inr (), set_list h (productos invt) (held invt h @ [v])))
          \<and> held invt (set_list h (productos invt) (held invt h @ [v])) = held invt h @ [v])"
proof (intro conjI allI impI)
  assume "\<not> isinstance_Producto v"
  then show "agregar_producto U invt v h = (Inl TypeError, h)"
    by (simp add: agregar_producto_def)
next
  fix r p
  assume a: "v = PProducto r \<and> get_producto h r = Some p \<and> wf_producto U p"
  then have nm: "attr_nombre h v = Inr (nombre p)" by simp
  from a have st: "strip U (nombre p) = nombre p" and ne: "nombre p \<noteq> []"
    by (simp_all add: wf_producto_def)
  have all: "list_all (is_producto_ref h) (held invt h)"
    using assms by (simp add: wf_inventario_def)
  have search: "buscar_producto U invt (PStr (nombre p)) h =
      (case find (\<lambda>x. lower U (nombre_de h x) = lower U (nombre p)) (held invt h) of
         None \<Rightarrow> Inl KeyError | Some x \<Rightarrow> Inr x)"
    using held_wf [OF assms] st ne
    by (simp add: buscar_producto_def Let_def buscar_loop_find [OF all])
  have mem: "(lower U (nombre p) \<in> set (lower_names U invt h)) =
      (find (\<lambda>x. lower U (nombre_de h x) = lower U (nombre p)) (held invt h) \<noteq> None)"
    by (auto simp: lower_names_def find_None_iff intro: rev_image_eqI)
  show "agregar_producto U invt v h =
            (if lower U (nombre p) \<in> set (lower_names U invt h) then (Inl ValueError, h)
             else (Inr (), set_list h (productos invt) (held invt h @ [v])))"
    using a held_wf [OF assms]
    by (auto simp: agregar_producto_def nm search mem list_append_def split: option.splits)
  show "held invt (set_list h (productos invt) (held invt h @ [v])) = held invt h @ [v]"
    using assms by (simp add: held_set_list wf_inventario_def)
qed

theorem agregar_producto_spec_witness:
  "agregar_producto ascii inventario_0 (PProducto 1) heap_widget = (Inl ValueError, heap_widget)
   \<and> attr_nombre heap_widget (PProducto 1) = Inr ''WIDGET''
   \<and> held inventario_0 heap_widget = [PProducto 0]
   \<and> attr_nombre heap_widget (PProducto 0) = Inr ''Widget''
   \<and> agregar_producto ascii inventario_0 (PStr ''Widget'') heap_widget
       = (Inl TypeError, heap_widget)"
  using agregar_producto_spec [OF wf_heap_widget, of "PProducto 1" ascii]
    agregar_producto_spec [OF wf_heap_widget, of "PStr ''Widget''" ascii]
  by (simp add: held_heap_widget lower_names_def nombre_de_def wf_producto_def)
    (simp add: heap_widget_eq get_producto_def strip_def ascii_def ascii_isspace_def
      ascii_lower_char_def)

section \<open>Inventario: the snapshot\<close>

text \<open>
  Claim C9. \<^verbatim>\<open>listar_productos\<close> returns a list that holds exactly the held products
  in insertion order. The list is a new object: its address was not in use, it is not the
  list of the inventory, and the call changes neither the held products nor any
  \<^verbatim>\<open>Producto\<close>. Mutating the returned list, by \<^verbatim>\<open>append\<close> or by any other change of
  its contents, leaves the held products of the inventory as they were.
\<close>

theorem listar_productos_snapshot:
  assumes "productos invt < length (list_objs h)"
  shows "\<exists>r h'. listar_productos invt h = (Inr (PList r), h')
     \<and> get_list h' r = Some (held invt h)
     \<and> get_list h r = None
     \<and> r \<noteq> productos invt
     \<and> held invt h' = held invt h
     \<and> producto_objs h' = producto_objs h
     \<and> (\<forall>xs. held invt (set_list h' r xs) = held invt h)
     \<and> (\<forall>v. held invt (snd (list_append r v h')) = held invt h
            \<and> get_list (snd (list_append r v h')) r = Some (held invt h @ [v]))"
  using assms
  by (simp add: listar_productos_def new_list_def get_list_def held_def set_list_def
      list_append_def nth_append nth_list_update)

theorem listar_productos_snapshot_witness:
  "listar_productos inventario_0 heap_pen_book
     = (Inr (PList 1),
        heap_pen_book\<lparr>list_objs := [[PProducto 0, PProducto 1], [PProducto 0, PProducto 1]]\<rparr>)
   \<and> held inventario_0 (snd (list_append 1 (PInt 7)
        (snd (listar_productos inventario_0 heap_pen_book)))) = [PProducto 0, PProducto 1]
   \<and> get_list (snd (list_append 1 (PInt 7)
        (snd (listar_productos inventario_0 heap_pen_book)))) 1
       = Some [PProducto 0, PProducto 1, PInt 7]"
  using listar_productos_snapshot [of inventario_0 heap_pen_book]
  by (simp add: inventario_0_eq heap_pen_book_eq listar_productos_def new_list_def
      get_list_def held_def list_append_def set_list_def)

section \<open>Inventario: the invariant\<close>

text \<open>Each call keeps a well-formed state well formed, with pairwise different names.\<close>

lemma Producto_init_cases:
  "snd (Producto_init U a b c h) = h
   \<or> (\<exists>s f n. strip U s \<noteq> [] \<and>
         snd (Producto_init U a b c h) =
           h\<lparr>producto_objs := producto_objs h @ [\<lparr>nombre = strip U s, precio = f, cantidad = n\<rparr>]\<rparr>)"
  by (cases a) (auto simp: Producto_init_def Let_def new_producto_def split: sum.splits)

lemma nombre_de_new_producto:
  "is_producto_ref h v \<Longrightarrow> nombre_de (h\<lparr>producto_objs := producto_objs h @ [p]\<rparr>) v = nombre_de h v"
  by (cases v) (simp_all add: nombre_de_def get_producto_def nth_append)

lemma is_producto_ref_new_producto:
  "is_producto_ref h v \<Longrightarrow> is_producto_ref (h\<lparr>producto_objs := producto_objs h @ [p]\<rparr>) v"
  by (cases v) simp_all

lemma inventario_ok_new_producto:
  assumes "inventario_ok U invt h" and "wf_producto U p"
  shows "inventario_ok U invt (h\<lparr>producto_objs := producto_objs h @ [p]\<rparr>)"
proof -
  let ?h = "h\<lparr>producto_objs := producto_objs h @ [p]\<rparr>"
  have held: "held invt ?h = held invt h"
    by (simp add: held_def get_list_def)
  have refs: "list_all (is_producto_ref h) (held invt h)"
    using assms(1) by (simp add: inventario_ok_def wf_inventario_def)
  then have names: "lower_names U invt ?h = lower_names U invt h"
    by (auto simp: lower_names_def held list_all_iff nombre_de_new_producto)
  have "list_all (is_producto_ref ?h) (held invt h)"
    using refs by (auto simp: list_all_iff intro: is_producto_ref_new_producto)
  then show ?thesis
    using assms by (simp add: inventario_ok_def wf_heap_def wf_inventario_def held names)
qed

lemma nombre_de_set_list: "nombre_de (set_list h r xs) v = nombre_de h v"
  by (cases v) (simp_all add: nombre_de_def get_producto_def set_list_def)

lemma is_producto_ref_set_list: "is_producto_ref (set_list h r xs) v = is_producto_ref h v"
  by (cases v) (simp_all add: set_list_def)

lemma inventario_ok_agregar:
  assumes ok: "inventario_ok U invt h"
  shows "inventario_ok U invt (snd (agregar_producto U invt v h))"
proof (cases v)
  case (PProducto r)
  have wf: "wf_inventario invt h" using ok by (simp add: inventario_ok_def)
  show ?thesis
  proof (cases "get_producto h r")
    case None
    then show ?thesis using ok PProducto by (simp add: agregar_producto_def)
  next
    case (Some p)
    then have r: "r < length (producto_objs h)" and p: "p = producto_objs h ! r"
      by (auto simp: get_producto_def split: if_splits)
    then have wfp: "wf_producto U p"
      using ok by (simp add: inventario_ok_def wf_heap_def list_all_length)
    note spec = agregar_producto_spec [OF wf, of v U, THEN conjunct2, rule_format, of r p]
    show ?thesis
    proof (cases "lower U (nombre p) \<in> set (lower_names U invt h)")
      case True
      then show ?thesis using spec PProducto Some wfp ok by simp
    next
      case False
      let ?h = "set_list h (productos invt) (held invt h @ [v])"
      have res: "snd (agregar_producto U invt v h) = ?h"
        using spec PProducto Some wfp False by simp
      have held: "held invt ?h = held invt h @ [v]"
        using spec PProducto Some wfp by simp
      have nm: "nombre_de h v = nombre p"
        using PProducto Some by (simp add: nombre_de_def)
      have names: "lower_names U invt ?h = lower_names U invt h @ [lower U (nombre p)]"
        by (simp add: lower_names_def held nombre_de_set_list nm)
      have "is_producto_ref h v" using PProducto r by simp
      then have "list_all (is_producto_ref ?h) (held invt h @ [v])"
        using wf by (simp add: wf_inventario_def is_producto_ref_set_list [abs_def])
      moreover have "productos invt < length (list_objs ?h)"
        using wf by (simp add: wf_inventario_def set_list_def)
      moreover have "wf_heap U ?h"
        using ok by (simp add: inventario_ok_def wf_heap_def set_list_def)
      ultimately show ?thesis
        using ok False by (simp add: res inventario_ok_def wf_inventario_def held names)
    qed
  qed
qed (simp_all add: agregar_producto_def ok)

lemma inventario_ok_listar:
  assumes ok: "inventario_ok U invt h"
  shows "inventario_ok U invt (snd (listar_productos invt h))"
proof -
  have lt: "productos invt < length (list_objs h)"
    using ok by (simp add: inventario_ok_def wf_inventario_def)
  let ?h = "h\<lparr>list_objs := list_objs h @ [held invt h]\<rparr>"
  have res: "snd (listar_productos invt h) = ?h"
    using lt by (simp add: listar_productos_def get_list_def new_list_def held_def)
  have held: "held invt ?h = held invt h"
    using lt by (simp add: held_def get_list_def nth_append)
  have nm: "nombre_de ?h = nombre_de h"
  proof (rule ext)
    fix v show "nombre_de ?h v = nombre_de h v"
      by (cases v) (simp_all add: nombre_de_def get_producto_def)
  qed
  have ref: "is_producto_ref ?h = is_producto_ref h"
  proof (rule ext)
    fix v show "is_producto_ref ?h v = is_producto_ref h v" by (cases v) simp_all
  qed
  show ?thesis
    using ok lt
    by (simp add: res inventario_ok_def wf_heap_def wf_inventario_def held lower_names_def nm ref)
qed

lemma inventario_ok_set_producto:
  assumes ok: "inventario_ok U invt h"
    and p: "get_producto h r = Some p" and q: "nombre q = nombre p"
  shows "inventario_ok U invt (set_producto h r q)"
proof -
  let ?h = "set_producto h r q"
  from p have r: "r < length (producto_objs h)" and pr: "producto_objs h ! r = p"
    by (auto simp: get_producto_def split: if_splits)
  have held: "held invt ?h = held invt h"
    by (simp add: held_def get_list_def set_producto_def)
  have nm: "nombre_de ?h v = nombre_de h v" for v
    using r pr q
    by (cases v) (auto simp: nombre_de_def get_producto_def set_producto_def nth_list_update)
  have ref: "is_producto_ref ?h v = is_producto_ref h v" for v
    by (cases v) (simp_all add: set_producto_def)
  have "wf_producto U p"
    using ok r pr by (auto simp: inventario_ok_def wf_heap_def list_all_length)
  then have "wf_producto U q" using q by (simp add: wf_producto_def)
  moreover have "list_all (wf_producto U) (producto_objs h)"
    using ok by (simp add: inventario_ok_def wf_heap_def)
  ultimately have "wf_heap U ?h"
    by (auto simp: wf_heap_def set_producto_def list_all_iff dest: set_update_subset_insert [THEN subsetD])
  moreover have "productos invt < length (list_objs ?h)"
    using ok by (simp add: inventario_ok_def wf_inventario_def set_producto_def)
  ultimately show ?thesis
    using ok by (simp add: inventario_ok_def wf_inventario_def held lower_names_def nm ref [abs_def])
qed

lemma actualizar_precio_cases:
  "snd (actualizar_precio r v h) = h
   \<or> (\<exists>p f. get_producto h r = Some p \<and> snd (actualizar_precio r v h) = set_producto h r (p\<lparr>precio := f\<rparr>))"
  by (auto simp: actualizar_precio_def split: option.splits sum.splits)

lemma actualizar_cantidad_cases:
  "snd (actualizar_cantidad r v h) = h
   \<or> (\<exists>p n. get_producto h r = Some p \<and> snd (actualizar_cantidad r v h) = set_producto h r (p\<lparr>cantidad := n\<rparr>))"
  by (auto simp: actualizar_cantidad_def split: option.splits sum.splits)

lemma inventario_ok_step:
  assumes ok: "inventario_ok U invt h"
  shows "inventario_ok U invt (step U invt x h)"
proof (cases x)
  case (Construct a b c)
  from Producto_init_cases [of U a b c h] show ?thesis
  proof
    assume "snd (Producto_init U a b c h) = h"
    then show ?thesis using ok Construct by simp
  next
    assume "\<exists>s f n. strip U s \<noteq> [] \<and>
         snd (Producto_init U a b c h) =
           h\<lparr>producto_objs := producto_objs h @ [\<lparr>nombre = strip U s, precio = f, cantidad = n\<rparr>]\<rparr>"
    then obtain s f n where s: "strip U s \<noteq> []"
      and res: "snd (Producto_init U a b c h) =
           h\<lparr>producto_objs := producto_objs h @ [\<lparr>nombre = strip U s, precio = f, cantidad = n\<rparr>]\<rparr>"
      by blast
    have "wf_producto U \<lparr>nombre = strip U s, precio = f, cantidad = n\<rparr>"
      using s by (simp add: wf_producto_def strip_idem)
    then show ?thesis
      using inventario_ok_new_producto [OF ok] Construct res by simp
  qed
next
  case (Add v)
  then show ?thesis using inventario_ok_agregar [OF ok] by simp
next
  case (Find v)
  then show ?thesis using ok by (simp split: sum.splits)
next
  case Total_value
  then show ?thesis using ok by (simp split: sum.splits)
next
  case List_all
  then show ?thesis using inventario_ok_listar [OF ok] by simp
next
  case (Set_price r v)
  from actualizar_precio_cases [of r v h] show ?thesis
  proof (elim disjE exE conjE)
    assume "snd (actualizar_precio r v h) = h"
    then show ?thesis using ok Set_price by simp
  next
    fix p f
    assume "get_producto h r = Some p"
      and "snd (actualizar_precio r v h) = set_producto h r (p\<lparr>precio := f\<rparr>)"
    then show ?thesis
      using inventario_ok_set_producto [OF ok, of r p "p\<lparr>precio := f\<rparr>"] Set_price by simp
  qed
next
  case (Set_quantity r v)
  from actualizar_cantidad_cases [of r v h] show ?thesis
  proof (elim disjE exE conjE)
    assume "snd (actualizar_cantidad r v h) = h"
    then show ?thesis using ok Set_quantity by simp
  next
    fix p n
    assume "get_producto h r = Some p"
      and "snd (actualizar_cantidad r v h) = set_producto h r (p\<lparr>cantidad := n\<rparr>)"
    then show ?thesis
      using inventario_ok_set_producto [OF ok, of r p "p\<lparr>cantidad := n\<rparr>"] Set_quantity by simp
  qed
qed

lemma inventario_ok_run:
  "inventario_ok U invt h \<Longrightarrow> inventario_ok U invt (run U invt xs h)"
  unfolding run_def by (induction xs arbitrary: h) (simp_all add: inventario_ok_step)

lemma inventario_ok_0: "inventario_ok U inventario_0 heap_0"
  by (simp add: inventario_ok_def wf_heap_def wf_inventario_def lower_names_def held_def
      get_list_def heap_0_def inventario_0_def Inventario_init_def new_list_def empty_heap_def)

text \<open>
  Claim C4. In every state reached from the empty inventory by a sequence of
  constructions of products, \<^verbatim>\<open>agregar_producto\<close>, \<^verbatim>\<open>buscar_producto\<close>,
  \<^verbatim>\<open>calcular_valor_inventario\<close>, \<^verbatim>\<open>listar_productos\<close> and the two setters, with
  any arguments and whether or not each call raises, the inventory is well formed and
  any two held products at different positions have names that differ when lower-cased.
\<close>

theorem names_unique_invariant:
  "wf_inventario inventario_0 (run U inventario_0 xs heap_0)
   \<and> distinct (lower_names U inventario_0 (run U inventario_0 xs heap_0))
   \<and> (\<forall>i j. i < length (held inventario_0 (run U inventario_0 xs heap_0))
          \<and> j < length (held inventario_0 (run U inventario_0 xs heap_0)) \<and> i \<noteq> j \<longrightarrow>
        lower U (nombre_de (run U inventario_0 xs heap_0)
                  (held inventario_0 (run U inventario_0 xs heap_0) ! i))
        \<noteq> lower U (nombre_de (run U inventario_0 xs heap_0)
                  (held inventario_0 (run U inventario_0 xs heap_0) ! j)))"
proof -
  let ?h = "run U inventario_0 xs heap_0"
  have ok: "inventario_ok U inventario_0 ?h"
    by (rule inventario_ok_run [OF inventario_ok_0])
  then have d: "distinct (lower_names U inventario_0 ?h)"
    by (simp add: inventario_ok_def)
  have "lower U (nombre_de ?h (held inventario_0 ?h ! i)) \<noteq> lower U (nombre_de ?h (held inventario_0 ?h ! j))"
    if "i < length (held inventario_0 ?h)" "j < length (held inventario_0 ?h)" "i \<noteq> j" for i j
    using d that by (simp add: lower_names_def distinct_conv_nth)
  then show ?thesis using ok d by (simp add: inventario_ok_def)
qed

theorem names_unique_invariant_witness:
  "distinct (lower_names ascii inventario_0 heap_widget)
   \<and> lower_names ascii inventario_0 heap_widget = [''widget'']
   \<and> held inventario_0
        (run ascii inventario_0
          [Construct (PStr ''Widget'') (PFloat f_1_0) (PInt 1), Add (PProducto 0),
           Construct (PStr ''WIDGET'') (PFloat f_1_0) (PInt 2), Add (PProducto 1)] heap_0)
       = [PProducto 0]"
proof -
  note t = names_unique_invariant [of ascii
      "[Construct (PStr ''Widget'') (PFloat f_1_0) (PInt 1), Add (PProducto 0),
        Construct (PStr ''WIDGET'') (PFloat f_1_0) (PInt 2)]"]
  have 1: "distinct (lower_names ascii inventario_0 heap_widget)"
    using t by (simp add: heap_widget_def)
  have 2: "lower_names ascii inventario_0 heap_widget = [''widget'']"
    by (simp add: lower_names_def held_heap_widget nombre_de_def)
      (simp add: heap_widget_eq get_producto_def ascii_def ascii_lower_char_def)
  have 3: "run ascii inventario_0
          [Construct (PStr ''Widget'') (PFloat f_1_0) (PInt 1), Add (PProducto 0),
           Construct (PStr ''WIDGET'') (PFloat f_1_0) (PInt 2), Add (PProducto 1)] heap_0
        = heap_widget"
    by (simp add: heap_widget_eq) (simp add: eval_defs)
  show ?thesis unfolding 3 using 1 2 by (simp add: held_heap_widget)
qed

section \<open>Inventario: the total value\<close>















end
